theory Spec2Isabelle
  imports Complex_Main
begin

section \<open>The update-check endpoint of \<^verbatim>\<open>src/api/update/index.js\<close>\<close>

text \<open>
  The endpoint receives a platform string, a release quality and the commit of the
  client's build, resolves the first two into a descriptor, fetches \<^verbatim>\<open>latest.json\<close>
  for that descriptor and answers 204 (nothing newer) or 200 (the remote record).

  JavaScript values are modelled by what the code can observe of them:
  \<^item> a value that is a string or \<^verbatim>\<open>null\<close>/\<^verbatim>\<open>undefined\<close> (a query parameter, a
    destructured token, \<^verbatim>\<open>req.method\<close>) is a \<open>string option\<close>;
  \<^item> a parsed JSON value is a \<open>json\<close>;
  \<^item> \<^verbatim>\<open>false\<close> returned by \<^verbatim>\<open>validateInput\<close> and \<^verbatim>\<open>null\<close> returned by
    \<^verbatim>\<open>getLatestJSON\<close> are \<open>None\<close>.
  Strings are compared only for equality and split at \<^verbatim>\<open>-\<close>, so a \<open>char list\<close>
  stands for them.
\<close>

subsection \<open>Constants (lines 17--38)\<close>

definition INSIDER :: string where "INSIDER = ''insider''"
definition STABLE :: string where "STABLE = ''stable''"

definition DARWIN :: string where "DARWIN = ''darwin''"
definition WINDOWS :: string where "WINDOWS = ''win32''"
definition LINUX :: string where "LINUX = ''linux''"

definition ARM64 :: string where "ARM64 = ''arm64''"
definition IA32 :: string where "IA32 = ''ia32''"
definition X64 :: string where "X64 = ''x64''"

definition SYSTEM :: string where "SYSTEM = ''system''"
definition ARCHIVE :: string where "ARCHIVE = ''archive''"
definition USER :: string where "USER = ''user''"

definition QUALITIES :: "string set" where "QUALITIES = {INSIDER, STABLE}"
definition OS :: "string set" where "OS = {DARWIN, LINUX, WINDOWS}"
definition TYPES :: "string set" where "TYPES = {ARCHIVE, USER, SYSTEM}"
definition ARCH :: "string set" where "ARCH = {ARM64, IA32, X64}"

definition VERSION_BASE_URL :: string where
  "VERSION_BASE_URL = ''https://raw.githubusercontent.com/aphrcwaro/datasuite_public/main''"

subsection \<open>The JavaScript operations the code uses\<close>

text \<open>\<^verbatim>\<open>!v\<close> for a value that is a string, \<^verbatim>\<open>null\<close> or \<^verbatim>\<open>undefined\<close>: only a
  non-empty string is truthy.\<close>

fun truthy :: "string option \<Rightarrow> bool" where
  "truthy None = False"
| "truthy (Some s) = (s \<noteq> [])"

text \<open>\<^verbatim>\<open>S.has(v)\<close> for a \<^verbatim>\<open>Set\<close> of strings: \<^verbatim>\<open>undefined\<close> and \<^verbatim>\<open>null\<close> are
  never members.\<close>

fun has :: "string set \<Rightarrow> string option \<Rightarrow> bool" where
  "has S None = False"
| "has S (Some s) = (s \<in> S)"

text \<open>\<^verbatim>\<open>s.split(sep)\<close> for a one-character separator: the pieces between the
  separators, empty pieces kept; the result is never empty (\<^verbatim>\<open>''.split('-')\<close> is
  \<^verbatim>\<open>['']\<close>).\<close>

fun js_split :: "char \<Rightarrow> string \<Rightarrow> string list" where
  "js_split sep [] = [[]]"
| "js_split sep (c # cs) =
     (if c = sep then [] # js_split sep cs
      else (case js_split sep cs of
              [] \<Rightarrow> [[c]]
            | t # ts \<Rightarrow> (c # t) # ts))"

text \<open>Array destructuring \<^verbatim>\<open>[a, b, c] = xs\<close>: position \<open>i\<close> of the array, or
  \<^verbatim>\<open>undefined\<close> beyond its end.\<close>

definition elem :: "'a list \<Rightarrow> nat \<Rightarrow> 'a option" where
  "elem xs i = (if i < length xs then Some (xs ! i) else None)"

subsection \<open>The platform descriptor and \<^verbatim>\<open>buildVersionUrl\<close> (lines 41--45)\<close>

text \<open>The object \<^verbatim>\<open>{ quality, os, arch, type }\<close> that \<^verbatim>\<open>validateInput\<close> returns.
  When it is returned, \<^verbatim>\<open>quality\<close>, \<^verbatim>\<open>os\<close> and \<^verbatim>\<open>arch\<close> have passed a \<^verbatim>\<open>Set.has\<close>
  test and are strings; \<^verbatim>\<open>type\<close> may be \<^verbatim>\<open>undefined\<close>.\<close>

record descriptor =
  quality :: string
  os :: string
  arch :: string
  type :: "string option"

definition buildVersionUrl :: "descriptor \<Rightarrow> string" where
  "buildVersionUrl input =
     (let path = quality input @ ''/'' @ os input @ ''/'' @ arch input;
          path = (case type input of
                    Some t \<Rightarrow> if t \<noteq> [] then path @ ''/'' @ t else path
                  | None \<Rightarrow> path)
      in VERSION_BASE_URL @ ''/'' @ path @ ''/latest.json'')"

subsection \<open>\<^verbatim>\<open>validateInput\<close> (lines 71--102)\<close>

text \<open>Lines 79--92, the block under \<^verbatim>\<open>if (!type)\<close> of the \<^verbatim>\<open>win32\<close> branch: the
  values of \<^verbatim>\<open>arch\<close> and \<^verbatim>\<open>type\<close> after it.\<close>

definition win32_defaults :: "string option \<Rightarrow> string option \<Rightarrow> string option \<times> string option" where
  "win32_defaults arch0 type0 =
     (if \<not> truthy type0 then
        (if \<not> truthy arch0 then (Some IA32, Some SYSTEM)
         else if has TYPES arch0 then (Some IA32, arch0)
         else (arch0, Some SYSTEM))
      else (arch0, type0))"

text \<open>Lines 99--101: the architecture test and the returned object.\<close>

definition check_arch :: "string \<Rightarrow> string \<Rightarrow> string option \<Rightarrow> string option \<Rightarrow> descriptor option" where
  "check_arch q os1 arch1 type1 =
     (case arch1 of
        None \<Rightarrow> None
      | Some a \<Rightarrow>
          if a \<notin> ARCH then None
          else Some \<lparr>quality = q, os = os1, arch = a, type = type1\<rparr>)"

text \<open>Lines 76--101: the part of \<^verbatim>\<open>validateInput\<close> after the platform string has
  been split into \<^verbatim>\<open>[os, arch, type]\<close>. \<open>None\<close> is the \<^verbatim>\<open>false\<close> of the source.\<close>

definition resolve_tokens :: "string \<Rightarrow> string \<Rightarrow> string option \<Rightarrow> string option \<Rightarrow> descriptor option" where
  "resolve_tokens q os0 arch0 type0 =
     (if os0 \<notin> OS then None
      else if os0 = WINDOWS then
        (case win32_defaults arch0 type0 of
           (arch1, type1) \<Rightarrow>
             if \<not> has TYPES type1 then None
             else check_arch q os0 arch1 type1)
      else if os0 = DARWIN then
        check_arch q os0 (if \<not> truthy arch0 then Some X64 else arch0) type0
      else check_arch q os0 arch0 type0)"

text \<open>The parameters are what \<^verbatim>\<open>URLSearchParams.get\<close> gives: a string or
  \<^verbatim>\<open>null\<close>, so \<^verbatim>\<open>typeof platform !== 'string'\<close> is false whenever \<^verbatim>\<open>!platform\<close> is.\<close>

definition validateInput :: "string option \<Rightarrow> string option \<Rightarrow> descriptor option" where
  "validateInput platform qual =
     (case qual of
        None \<Rightarrow> None
      | Some q \<Rightarrow>
          if q = [] \<or> q \<notin> QUALITIES then None
          else
            (case platform of
               None \<Rightarrow> None
             | Some p \<Rightarrow>
                 if p = [] then None
                 else
                   (let toks = js_split CHR ''-'' p
                    in case elem toks 0 of
                         None \<Rightarrow> None
                       | Some os0 \<Rightarrow> resolve_tokens q os0 (elem toks 1) (elem toks 2))))"

subsection \<open>The remote record and \<^verbatim>\<open>getLatestJSON\<close> (lines 47--68)\<close>

text \<open>A value produced by \<^verbatim>\<open>response.json()\<close>. An object is the list of its own
  properties. A number stands for the value of its double; the code only ever tests a
  number for being zero.\<close>

datatype json =
    JNull
  | JBool bool
  | JNumber real
  | JString string
  | JArray "json list"
  | JObject "(string \<times> json) list"

text \<open>\<^verbatim>\<open>!data\<close> is \<open>\<not> json_truthy data\<close>.\<close>

fun json_truthy :: "json \<Rightarrow> bool" where
  "json_truthy JNull = False"
| "json_truthy (JBool b) = b"
| "json_truthy (JNumber n) = (n \<noteq> 0)"
| "json_truthy (JString s) = (s \<noteq> [])"
| "json_truthy (JArray xs) = True"
| "json_truthy (JObject fs) = True"

text \<open>\<^verbatim>\<open>typeof data\<close>; \<^verbatim>\<open>null\<close> and arrays have type \<^verbatim>\<open>'object'\<close>.\<close>

fun typeof :: "json \<Rightarrow> string" where
  "typeof JNull = ''object''"
| "typeof (JBool b) = ''boolean''"
| "typeof (JNumber n) = ''number''"
| "typeof (JString s) = ''string''"
| "typeof (JArray xs) = ''object''"
| "typeof (JObject fs) = ''object''"

text \<open>\<^verbatim>\<open>latest.version\<close>: the property of an object, \<^verbatim>\<open>undefined\<close> (\<open>None\<close>)
  when the object has no such property or the value is an array.\<close>

fun get_prop :: "json \<Rightarrow> string \<Rightarrow> json option" where
  "get_prop (JObject fs) k = map_of fs k"
| "get_prop v k = None"

text \<open>\<^verbatim>\<open>commit === latest.version\<close>, where \<^verbatim>\<open>commit\<close> is a string or \<^verbatim>\<open>null\<close> and
  the right-hand side a JSON value or \<^verbatim>\<open>undefined\<close>: equal strings are equal, and
  \<^verbatim>\<open>null\<close> is equal to \<^verbatim>\<open>null\<close> only.\<close>

fun strict_eq :: "string option \<Rightarrow> json option \<Rightarrow> bool" where
  "strict_eq None (Some JNull) = True"
| "strict_eq (Some s) (Some (JString t)) = (s = t)"
| "strict_eq c v = False"

text \<open>What \<^verbatim>\<open>await fetch(url, ...)\<close> can do: throw, or give a response with a
  status and a body that \<^verbatim>\<open>response.json()\<close> parses (\<open>Some\<close>) or rejects (\<open>None\<close>).
  \<^verbatim>\<open>response.ok\<close> is true for the statuses 200 to 299.\<close>

datatype fetch_outcome =
    NetworkFault
  | HttpResponse nat "json option"

definition response_ok :: "nat \<Rightarrow> bool" where
  "response_ok status = (200 \<le> status \<and> status \<le> 299)"

text \<open>The remote store maps a URL to the outcome of fetching it. \<open>None\<close> is the
  \<^verbatim>\<open>null\<close> of the source; \<^verbatim>\<open>.catch(() => null)\<close> turns a rejected parse into
  \<^verbatim>\<open>null\<close>.\<close>

definition getLatestJSON :: "(string \<Rightarrow> fetch_outcome) \<Rightarrow> descriptor \<Rightarrow> json option" where
  "getLatestJSON fetch input =
     (let url = buildVersionUrl input
      in case fetch url of
           NetworkFault \<Rightarrow> None
         | HttpResponse status body \<Rightarrow>
             if \<not> response_ok status then None
             else
               (let data = (case body of None \<Rightarrow> JNull | Some v \<Rightarrow> v)
                in if \<not> json_truthy data \<or> typeof data \<noteq> ''object'' then None
                   else Some data))"

subsection \<open>The response and the handler (lines 104--156)\<close>

text \<open>What \<^verbatim>\<open>res.end\<close> was called with: nothing, or \<^verbatim>\<open>JSON.stringify(payload)\<close>,
  kept as the payload it serialises.\<close>

datatype body = Empty | Stringified json

record response =
  statusCode :: nat
  headers :: "string \<rightharpoonup> string"
  ended :: "body option"

definition setHeader :: "response \<Rightarrow> string \<Rightarrow> string \<Rightarrow> response" where
  "setHeader res name v = res\<lparr>headers := (headers res)(name \<mapsto> v)\<rparr>"

definition sendNoContent :: "response \<Rightarrow> response" where
  "sendNoContent res = res\<lparr>statusCode := 204, ended := Some Empty\<rparr>"

definition sendJson :: "response \<Rightarrow> nat \<Rightarrow> json \<Rightarrow> response" where
  "sendJson res code payload =
     (setHeader (res\<lparr>statusCode := code\<rparr>) ''Content-Type'' ''application/json; charset=utf-8'')
       \<lparr>ended := Some (Stringified payload)\<rparr>"

text \<open>The request: \<^verbatim>\<open>req.method\<close>, and the query parameters of its URL in order.
  \<open>searchParams = None\<close> is a request for which \<^verbatim>\<open>new URL(req.url, ...)\<close> throws.\<close>

record request =
  req_method :: "string option"
  searchParams :: "(string \<times> string) list option"

text \<open>\<^verbatim>\<open>params.get(name)\<close>: the first value of the name, or \<^verbatim>\<open>null\<close>.\<close>

definition params_get :: "(string \<times> string) list \<Rightarrow> string \<Rightarrow> string option" where
  "params_get params name = map_of params name"

text \<open>The handler returns the response it has written and the URLs it has fetched.
  The only statement of the \<^verbatim>\<open>try\<close> block that can throw on a request is the URL
  constructor; the \<^verbatim>\<open>catch\<close> block then sends 500 (its logging writes no part of the
  response).\<close>

definition handler :: "(string \<Rightarrow> fetch_outcome) \<Rightarrow> request \<Rightarrow> response \<Rightarrow> response \<times> string list" where
  "handler fetch req res =
     (if truthy (req_method req) \<and> req_method req \<noteq> Some ''GET'' then
        (sendJson (setHeader res ''Allow'' ''GET'') 405
           (JObject [(''error'', JString ''Method Not Allowed'')]), [])
      else
        (case searchParams req of
           None \<Rightarrow>
             (sendJson res 500 (JObject [(''error'', JString ''Internal Server Error'')]), [])
         | Some params \<Rightarrow>
             (let platform = params_get params ''platform'';
                  qual = params_get params ''quality'';
                  commit = params_get params ''commit''
              in case validateInput platform qual of
                   None \<Rightarrow> (res\<lparr>statusCode := 404, ended := Some Empty\<rparr>, [])
                 | Some input \<Rightarrow>
                     (let latest = getLatestJSON fetch input;
                          res1 = setHeader res ''Cache-Control'' ''s-maxage=14400''
                      in case latest of
                           None \<Rightarrow> (sendNoContent res1, [buildVersionUrl input])
                         | Some data \<Rightarrow>
                             if strict_eq commit (get_prop data ''version'')
                             then (sendNoContent res1, [buildVersionUrl input])
                             else (sendJson res1 200 data, [buildVersionUrl input])))))"

subsection \<open>Concrete requests, stores and responses\<close>

text \<open>A response object nothing has been written to: status 200, no header.\<close>

definition new_response :: response where
  "new_response = \<lparr>statusCode = 200, headers = Map.empty, ended = None\<rparr>"

definition get_request :: "(string \<times> string) list \<Rightarrow> request" where
  "get_request params = \<lparr>req_method = Some ''GET'', searchParams = Some params\<rparr>"

text \<open>A store that is unreachable, and stores that answer every URL alike.\<close>

definition offline :: "string \<Rightarrow> fetch_outcome" where
  "offline url = NetworkFault"

definition serving :: "nat \<Rightarrow> json option \<Rightarrow> string \<Rightarrow> fetch_outcome" where
  "serving status b url = HttpResponse status b"

definition release :: json where
  "release = JObject [(''url'', JString ''https://example.org/app.zip''),
                      (''name'', JString ''1.33.1''),
                      (''version'', JString ''51b0b28'')]"

section \<open>Properties of the platform resolver\<close>

lemmas enum_defs = INSIDER_def STABLE_def DARWIN_def WINDOWS_def LINUX_def ARM64_def IA32_def
  X64_def SYSTEM_def ARCHIVE_def USER_def QUALITIES_def OS_def TYPES_def ARCH_def

lemmas resolver_defs = validateInput_def resolve_tokens_def win32_defaults_def check_arch_def
  elem_def

lemma js_split_nonempty: "js_split sep s \<noteq> []"
  by (induction s) (auto split: list.splits)

lemma check_arch_Some:
  "check_arch q o1 a1 t1 = Some d \<Longrightarrow>
     quality d = q \<and> os d = o1 \<and> a1 = Some (arch d) \<and> arch d \<in> ARCH \<and> type d = t1"
  by (cases a1) (auto simp: check_arch_def split: if_splits)

lemma win32_defaults_type:
  "win32_defaults a0 t0 = (a1, t1) \<Longrightarrow> has TYPES t1 \<Longrightarrow> \<exists>t. t1 = Some t \<and> t \<in> TYPES"
  by (cases t1) auto

text \<open>What a successful run of lines 76--101 says about the descriptor.\<close>

lemma resolve_tokens_Some:
  assumes "resolve_tokens q o0 a0 t0 = Some d"
  shows "quality d = q \<and> os d = o0 \<and> os d \<in> OS \<and> arch d \<in> ARCH \<and>
     (os d = WINDOWS \<longrightarrow> (\<exists>t. type d = Some t \<and> t \<in> TYPES)) \<and>
     (os d \<noteq> WINDOWS \<longrightarrow> type d = t0)"
proof -
  have o: "o0 \<in> OS"
    using assms by (auto simp: resolve_tokens_def split: if_splits)
  show ?thesis
  proof (cases "o0 = WINDOWS")
    case True
    obtain a1 t1 where w: "win32_defaults a0 t0 = (a1, t1)"
      by (cases "win32_defaults a0 t0")
    from assms o True w have h: "has TYPES t1" and c: "check_arch q o0 a1 t1 = Some d"
      by (auto simp: resolve_tokens_def split: if_splits)
    from check_arch_Some [OF c] win32_defaults_type [OF w h] o True show ?thesis
      by auto
  next
    case False
    then obtain a1 where c: "check_arch q o0 a1 t0 = Some d"
      using assms o by (auto simp: resolve_tokens_def split: if_splits)
    from check_arch_Some [OF c] o False show ?thesis
      by auto
  qed
qed

text \<open>A successful \<^verbatim>\<open>validateInput\<close> has passed both parameter tests and has run
  lines 76--101 on the first three tokens of the platform string.\<close>

lemma validateInput_Some:
  assumes "validateInput platform qual = Some d"
  obtains p q os0 where "platform = Some p" "p \<noteq> []" "qual = Some q" "q \<in> QUALITIES"
    "elem (js_split CHR ''-'' p) 0 = Some os0"
    "resolve_tokens q os0 (elem (js_split CHR ''-'' p) 1) (elem (js_split CHR ''-'' p) 2) = Some d"
proof -
  from assms obtain q where q: "qual = Some q" "q \<in> QUALITIES"
    by (cases qual) (auto simp: validateInput_def split: if_splits)
  from assms q obtain p where p: "platform = Some p" "p \<noteq> []"
    by (cases platform) (auto simp: validateInput_def split: if_splits)
  from assms q p obtain os0 where "elem (js_split CHR ''-'' p) 0 = Some os0"
    "resolve_tokens q os0 (elem (js_split CHR ''-'' p) 1) (elem (js_split CHR ''-'' p) 2) = Some d"
    by (cases "elem (js_split CHR ''-'' p) 0") (auto simp: validateInput_def Let_def split: if_splits)
  with q p that show thesis by blast
qed

lemma validateInput_win32_x64_user:
  "validateInput (Some ''win32-x64-user'') (Some ''stable'')
     = Some \<lparr>quality = ''stable'', os = ''win32'', arch = ''x64'', type = Some ''user''\<rparr>"
  by (simp add: resolver_defs enum_defs)

text \<open>What the tests of \<^verbatim>\<open>validateInput\<close> do establish for a returned descriptor:
  quality, os and arch are members of their enumerations, and for \<^verbatim>\<open>win32\<close> the type
  is a member of the package-type enumeration.\<close>

lemma validateInput_checked_fields:
  "validateInput platform qual = Some d \<Longrightarrow>
     quality d \<in> QUALITIES \<and> os d \<in> OS \<and> arch d \<in> ARCH \<and>
     (os d = WINDOWS \<longrightarrow> (\<exists>t. type d = Some t \<and> t \<in> TYPES))"
proof -
  assume v: "validateInput platform qual = Some d"
  from v obtain p q os0 where a: "platform = Some p" "q \<in> QUALITIES"
    and r: "resolve_tokens q os0 (elem (js_split CHR ''-'' p) 1) (elem (js_split CHR ''-'' p) 2) = Some d"
    by (rule validateInput_Some)
  from resolve_tokens_Some [OF r] a show ?thesis
    by auto
qed

text \<open>
  C1 on a third token outside the package-type enumeration. The function is documented
  as returning \<^verbatim>\<open>false\<close> for invalid input (line 70), and the \<^verbatim>\<open>win32\<close> branch does so:
  \<^verbatim>\<open>win32-x64-bogus\<close> fails at line 94. The \<^verbatim>\<open>darwin\<close> and \<^verbatim>\<open>linux\<close> branches have no such
  test, and for \<^verbatim>\<open>linux-x64-bogus\<close> a descriptor is returned whose type is \<^verbatim>\<open>bogus\<close>,
  where the claim says that resolution fails or the type is a member of the
  enumeration.
\<close>

theorem type_unchecked_outside_win32:
  "validateInput (Some ''linux-x64-bogus'') (Some ''stable'')
     = Some \<lparr>quality = ''stable'', os = ''linux'', arch = ''x64'', type = Some ''bogus''\<rparr> \<and>
   ''bogus'' \<notin> TYPES \<and>
   validateInput (Some ''win32-x64-bogus'') (Some ''stable'') = None"
  by (simp add: resolver_defs enum_defs)

text \<open>In the \<^verbatim>\<open>win32\<close> branch the pair \<^verbatim>\<open>(arch, type)\<close> of a returned descriptor is
  what lines 79--92 computed.\<close>

lemma resolve_tokens_win32:
  assumes "resolve_tokens q o0 a0 t0 = Some d" and "os d = WINDOWS"
  shows "win32_defaults a0 t0 = (Some (arch d), type d)"
proof -
  from resolve_tokens_Some [OF assms(1)] assms(2) have o: "o0 = WINDOWS" "o0 \<in> OS"
    by auto
  obtain a1 t1 where w: "win32_defaults a0 t0 = (a1, t1)"
    by (cases "win32_defaults a0 t0")
  from assms(1) o w have c: "check_arch q o0 a1 t1 = Some d"
    by (auto simp: resolve_tokens_def split: if_splits)
  from check_arch_Some [OF c] w show ?thesis
    by simp
qed

text \<open>
  C3. With quality \<^verbatim>\<open>stable\<close>, \<^verbatim>\<open>win32\<close> resolves to \<^verbatim>\<open>{stable, win32, ia32, system}\<close>,
  \<^verbatim>\<open>win32-user\<close> to \<^verbatim>\<open>{stable, win32, ia32, user}\<close> and \<^verbatim>\<open>win32-x64\<close> to
  \<^verbatim>\<open>{stable, win32, x64, system}\<close>. Every descriptor returned for \<^verbatim>\<open>win32\<close> has a type of
  the package-type enumeration (otherwise resolution has failed). Defaulting applies
  exactly when the third token is absent, which is how \<^verbatim>\<open>!type\<close> reads a missing or
  empty token: when the third token is there, arch and type are the second and third
  token; when it is not, the type is \<^verbatim>\<open>system\<close> or the second token, and the arch is
  \<^verbatim>\<open>ia32\<close> or the second token, as the three cases of the source say.
\<close>

theorem win32_defaulting:
  "validateInput (Some ''win32'') (Some ''stable'')
     = Some \<lparr>quality = ''stable'', os = ''win32'', arch = ''ia32'', type = Some ''system''\<rparr> \<and>
   validateInput (Some ''win32-user'') (Some ''stable'')
     = Some \<lparr>quality = ''stable'', os = ''win32'', arch = ''ia32'', type = Some ''user''\<rparr> \<and>
   validateInput (Some ''win32-x64'') (Some ''stable'')
     = Some \<lparr>quality = ''stable'', os = ''win32'', arch = ''x64'', type = Some ''system''\<rparr> \<and>
   (\<forall>p q d. validateInput (Some p) q = Some d \<and> os d = WINDOWS \<longrightarrow>
      (\<exists>t. type d = Some t \<and> t \<in> TYPES) \<and>
      (let arch0 = elem (js_split CHR ''-'' p) 1; type0 = elem (js_split CHR ''-'' p) 2
       in if truthy type0 then Some (arch d) = arch0 \<and> type d = type0
          else if \<not> truthy arch0 then arch d = IA32 \<and> type d = Some SYSTEM
          else if has TYPES arch0 then arch d = IA32 \<and> type d = arch0
          else Some (arch d) = arch0 \<and> type d = Some SYSTEM))"
proof (intro conjI allI impI; (elim conjE)?)
  show "validateInput (Some ''win32'') (Some ''stable'')
     = Some \<lparr>quality = ''stable'', os = ''win32'', arch = ''ia32'', type = Some ''system''\<rparr>"
    by (simp add: resolver_defs enum_defs)
  show "validateInput (Some ''win32-user'') (Some ''stable'')
     = Some \<lparr>quality = ''stable'', os = ''win32'', arch = ''ia32'', type = Some ''user''\<rparr>"
    by (simp add: resolver_defs enum_defs)
  show "validateInput (Some ''win32-x64'') (Some ''stable'')
     = Some \<lparr>quality = ''stable'', os = ''win32'', arch = ''x64'', type = Some ''system''\<rparr>"
    by (simp add: resolver_defs enum_defs)
next
  fix p q d
  assume v: "validateInput (Some p) q = Some d" and w: "os d = WINDOWS"
  from v obtain p' q' os0 where p': "Some p = Some p'"
    and r: "resolve_tokens q' os0 (elem (js_split CHR ''-'' p') 1) (elem (js_split CHR ''-'' p') 2) = Some d"
    by (rule validateInput_Some)
  from p' r have r': "resolve_tokens q' os0 (elem (js_split CHR ''-'' p) 1) (elem (js_split CHR ''-'' p) 2) = Some d"
    by simp
  show "\<exists>t. type d = Some t \<and> t \<in> TYPES"
    using resolve_tokens_Some [OF r'] w by simp
  have "win32_defaults (elem (js_split CHR ''-'' p) 1) (elem (js_split CHR ''-'' p) 2) = (Some (arch d), type d)"
    using r' w by (rule resolve_tokens_win32)
  then show "let arch0 = elem (js_split CHR ''-'' p) 1; type0 = elem (js_split CHR ''-'' p) 2
       in if truthy type0 then Some (arch d) = arch0 \<and> type d = type0
          else if \<not> truthy arch0 then arch d = IA32 \<and> type d = Some SYSTEM
          else if has TYPES arch0 then arch d = IA32 \<and> type d = arch0
          else Some (arch d) = arch0 \<and> type d = Some SYSTEM"
    by (auto simp: win32_defaults_def Let_def split: if_splits)
qed

theorem win32_defaulting_witness:
  "validateInput (Some ''win32-archive'') (Some ''insider'')
     = Some \<lparr>quality = ''insider'', os = ''win32'', arch = ''ia32'', type = Some ''archive''\<rparr> \<and>
   \<not> truthy (elem (js_split CHR ''-'' ''win32-archive'') 2) \<and>
   has TYPES (elem (js_split CHR ''-'' ''win32-archive'') 1) \<and>
   ''archive'' \<in> TYPES \<and> ''ia32'' = IA32"
proof -
  have e: "validateInput (Some ''win32-archive'') (Some ''insider'')
     = Some \<lparr>quality = ''insider'', os = ''win32'', arch = ''ia32'', type = Some ''archive''\<rparr>"
    by (simp add: resolver_defs enum_defs)
  have w: "os \<lparr>quality = ''insider'', os = ''win32'', arch = ''ia32'', type = Some ''archive''\<rparr> = WINDOWS"
    by (simp add: WINDOWS_def)
  from win32_defaulting e w
  have "(\<exists>t. type \<lparr>quality = ''insider'', os = ''win32'', arch = ''ia32'', type = Some ''archive''\<rparr> = Some t
           \<and> t \<in> TYPES)"
    by blast
  then have "''archive'' \<in> TYPES"
    by simp
  then show ?thesis using e
    by (simp add: elem_def IA32_def)
qed

text \<open>
  C4. For each quality of the enumeration, \<^verbatim>\<open>darwin\<close> resolves with the architecture
  defaulted to \<^verbatim>\<open>x64\<close> and the type left \<^verbatim>\<open>undefined\<close>, and \<^verbatim>\<open>linux\<close> fails to resolve:
  it has no default and \<^verbatim>\<open>ARCH.has(undefined)\<close> is false.
\<close>

theorem darwin_default_linux_none:
  "q \<in> QUALITIES \<Longrightarrow>
     validateInput (Some ''darwin'') (Some q)
       = Some \<lparr>quality = q, os = ''darwin'', arch = ''x64'', type = None\<rparr> \<and>
     validateInput (Some ''linux'') (Some q) = None"
  by (auto simp: resolver_defs enum_defs)

theorem darwin_default_linux_none_witness:
  "''insider'' \<in> QUALITIES \<and>
   validateInput (Some ''darwin'') (Some ''insider'')
     = Some \<lparr>quality = ''insider'', os = ''darwin'', arch = ''x64'', type = None\<rparr> \<and>
   validateInput (Some ''linux'') (Some ''insider'') = None"
proof -
  have q: "''insider'' \<in> QUALITIES"
    by (simp add: enum_defs)
  from darwin_default_linux_none [OF q] q show ?thesis
    by simp
qed

text \<open>
  C5. For every os, arch, type and quality of the four enumerations, resolving the
  string \<^verbatim>\<open>os-arch-type\<close> with that quality gives the descriptor with exactly these
  four fields.
\<close>

theorem resolve_round_trip:
  "o1 \<in> OS \<Longrightarrow> a \<in> ARCH \<Longrightarrow> t \<in> TYPES \<Longrightarrow> q \<in> QUALITIES \<Longrightarrow>
     validateInput (Some (o1 @ ''-'' @ a @ ''-'' @ t)) (Some q)
       = Some \<lparr>quality = q, os = o1, arch = a, type = Some t\<rparr>"
  by (auto simp: resolver_defs enum_defs)

theorem resolve_round_trip_witness:
  "''linux'' \<in> OS \<and> ''arm64'' \<in> ARCH \<and> ''archive'' \<in> TYPES \<and> ''insider'' \<in> QUALITIES \<and>
   validateInput (Some ''linux-arm64-archive'') (Some ''insider'')
     = Some \<lparr>quality = ''insider'', os = ''linux'', arch = ''arm64'', type = Some ''archive''\<rparr>"
proof -
  have h: "''linux'' \<in> OS" "''arm64'' \<in> ARCH" "''archive'' \<in> TYPES" "''insider'' \<in> QUALITIES"
    by (simp_all add: enum_defs)
  from resolve_round_trip [OF h] h show ?thesis
    by simp
qed

text \<open>Only the first three tokens are read.\<close>

lemma elem_take: "i < n \<Longrightarrow> elem (take n xs) i = elem xs i"
  by (simp add: elem_def)

lemma validateInput_tokens:
  "p \<noteq> [] \<Longrightarrow> validateInput (Some p) qual =
     (case qual of None \<Rightarrow> None
      | Some q \<Rightarrow> if q = [] \<or> q \<notin> QUALITIES then None
          else (case elem (take 3 (js_split CHR ''-'' p)) 0 of None \<Rightarrow> None
                | Some os0 \<Rightarrow> resolve_tokens q os0 (elem (take 3 (js_split CHR ''-'' p)) 1)
                     (elem (take 3 (js_split CHR ''-'' p)) 2)))"
  by (simp add: validateInput_def elem_take Let_def split: option.splits)

text \<open>
  C9. Tokens after the third are ignored: \<^verbatim>\<open>win32-x64-user-anything\<close> resolves, with
  quality \<^verbatim>\<open>stable\<close>, to \<^verbatim>\<open>{stable, win32, x64, user}\<close>, the descriptor of
  \<^verbatim>\<open>win32-x64-user\<close>; and two platform strings with the same first three tokens resolve
  alike, whatever the quality.
\<close>

theorem extra_tokens_ignored:
  "validateInput (Some ''win32-x64-user-anything'') (Some ''stable'')
     = Some \<lparr>quality = ''stable'', os = ''win32'', arch = ''x64'', type = Some ''user''\<rparr> \<and>
   validateInput (Some ''win32-x64-user-anything'') (Some ''stable'')
     = validateInput (Some ''win32-x64-user'') (Some ''stable'') \<and>
   (\<forall>p p' qual. p \<noteq> [] \<and> p' \<noteq> [] \<and>
       take 3 (js_split CHR ''-'' p) = take 3 (js_split CHR ''-'' p') \<longrightarrow>
       validateInput (Some p) qual = validateInput (Some p') qual)"
proof -
  have e1: "validateInput (Some ''win32-x64-user-anything'') (Some ''stable'')
     = Some \<lparr>quality = ''stable'', os = ''win32'', arch = ''x64'', type = Some ''user''\<rparr>"
    by (simp add: resolver_defs enum_defs)
  have g: "validateInput (Some p) qual = validateInput (Some p') qual"
    if "p \<noteq> []" "p' \<noteq> []" "take 3 (js_split CHR ''-'' p) = take 3 (js_split CHR ''-'' p')"
    for p p' qual
    unfolding validateInput_tokens [OF that(1)] validateInput_tokens [OF that(2)] that(3) ..
  from e1 validateInput_win32_x64_user g show ?thesis
    by simp
qed

theorem extra_tokens_ignored_witness:
  "take 3 (js_split CHR ''-'' ''darwin-arm64-user-a-b'') = take 3 (js_split CHR ''-'' ''darwin-arm64-user'') \<and>
   validateInput (Some ''darwin-arm64-user-a-b'') (Some ''insider'')
     = validateInput (Some ''darwin-arm64-user'') (Some ''insider'')"
proof -
  have t: "take 3 (js_split CHR ''-'' ''darwin-arm64-user-a-b'') = take 3 (js_split CHR ''-'' ''darwin-arm64-user'')"
    by simp
  have n: "''darwin-arm64-user-a-b'' \<noteq> []" "''darwin-arm64-user'' \<noteq> []"
    by simp_all
  from extra_tokens_ignored t n
  have "validateInput (Some ''darwin-arm64-user-a-b'') (Some ''insider'')
     = validateInput (Some ''darwin-arm64-user'') (Some ''insider'')"
    by blast
  with t show ?thesis
    by simp
qed

section \<open>Properties of the handler\<close>

lemmas response_defs = sendJson_def sendNoContent_def setHeader_def

lemmas request_defs = get_request_def new_response_def params_get_def offline_def serving_def

text \<open>
  C7. A request whose method is present (a non-empty string) and is not \<^verbatim>\<open>GET\<close> is
  answered 405 with \<^verbatim>\<open>Allow: GET\<close> and the body \<^verbatim>\<open>{"error": "Method Not Allowed"}\<close>.
  The answer is the same whatever the URL and the store are, also for a URL that does
  not parse, and no URL has been fetched: nothing of the request but its method has
  been looked at.
\<close>

theorem method_not_allowed:
  "req_method req = Some m \<Longrightarrow> m \<noteq> [] \<Longrightarrow> m \<noteq> ''GET'' \<Longrightarrow>
     handler fetch req res =
       (res\<lparr>statusCode := 405,
            headers := (headers res)(''Allow'' \<mapsto> ''GET'',
                                     ''Content-Type'' \<mapsto> ''application/json; charset=utf-8''),
            ended := Some (Stringified (JObject [(''error'', JString ''Method Not Allowed'')]))\<rparr>,
        [])"
  by (simp add: handler_def response_defs)

theorem method_not_allowed_witness:
  "handler offline \<lparr>req_method = Some ''POST'', searchParams = None\<rparr> new_response =
       (new_response\<lparr>statusCode := 405,
            headers := (headers new_response)(''Allow'' \<mapsto> ''GET'',
                                     ''Content-Type'' \<mapsto> ''application/json; charset=utf-8''),
            ended := Some (Stringified (JObject [(''error'', JString ''Method Not Allowed'')]))\<rparr>,
        [])"
  using method_not_allowed [of "\<lparr>req_method = Some ''POST'', searchParams = None\<rparr>" "''POST''"
      offline new_response]
  by simp

text \<open>The ways the handler can go once the method test has passed.\<close>

lemma handler_500:
  "\<not> (truthy (req_method req) \<and> req_method req \<noteq> Some ''GET'') \<Longrightarrow> searchParams req = None \<Longrightarrow>
     handler fetch req res =
       (sendJson res 500 (JObject [(''error'', JString ''Internal Server Error'')]), [])"
  by (auto simp: handler_def)

lemma handler_404:
  "\<not> (truthy (req_method req) \<and> req_method req \<noteq> Some ''GET'') \<Longrightarrow>
   searchParams req = Some params \<Longrightarrow>
   validateInput (params_get params ''platform'') (params_get params ''quality'') = None \<Longrightarrow>
     handler fetch req res = (res\<lparr>statusCode := 404, ended := Some Empty\<rparr>, [])"
  by (auto simp: handler_def)

lemma handler_valid:
  "\<not> (truthy (req_method req) \<and> req_method req \<noteq> Some ''GET'') \<Longrightarrow>
   searchParams req = Some params \<Longrightarrow>
   validateInput (params_get params ''platform'') (params_get params ''quality'') = Some input \<Longrightarrow>
     handler fetch req res =
       (case getLatestJSON fetch input of
          None \<Rightarrow> sendNoContent (setHeader res ''Cache-Control'' ''s-maxage=14400'')
        | Some data \<Rightarrow>
            if strict_eq (params_get params ''commit'') (get_prop data ''version'')
            then sendNoContent (setHeader res ''Cache-Control'' ''s-maxage=14400'')
            else sendJson (setHeader res ''Cache-Control'' ''s-maxage=14400'') 200 data,
        [buildVersionUrl input])"
  by (auto simp: handler_def Let_def split: option.splits)

text \<open>
  C2, as the code has it. The handler answers 200, 204, 404, 405 or 500. Every 200 and
  every 204 response carries \<^verbatim>\<open>Cache-Control: s-maxage=14400\<close>. The header is set on
  line 141, after the platform has been validated and the fetch has returned; a 404
  response and a 500 response for a URL that does not parse are sent before that line,
  and like the 405 response they leave \<^verbatim>\<open>Cache-Control\<close> as it was on the response
  object the handler was given.
\<close>

theorem cache_control_after_fetch:
  "statusCode (fst (handler fetch req res)) \<in> {200, 204, 404, 405, 500} \<and>
   (statusCode (fst (handler fetch req res)) = 200 \<or>
    statusCode (fst (handler fetch req res)) = 204 \<longrightarrow>
      headers (fst (handler fetch req res)) ''Cache-Control'' = Some ''s-maxage=14400'') \<and>
   (statusCode (fst (handler fetch req res)) \<noteq> 200 \<and>
    statusCode (fst (handler fetch req res)) \<noteq> 204 \<longrightarrow>
      headers (fst (handler fetch req res)) ''Cache-Control'' = headers res ''Cache-Control'')"
proof (cases "truthy (req_method req) \<and> req_method req \<noteq> Some ''GET''")
  case True
  then show ?thesis
    by (simp add: handler_def response_defs)
next
  case m: False
  show ?thesis
  proof (cases "searchParams req")
    case None
    with m show ?thesis
      by (simp add: handler_500 response_defs)
  next
    case (Some params)
    show ?thesis
    proof (cases "validateInput (params_get params ''platform'') (params_get params ''quality'')")
      case None
      with m Some show ?thesis
        by (simp add: handler_404)
    next
      case (Some input)
      with m \<open>searchParams req = Some params\<close> show ?thesis
        by (simp add: handler_valid response_defs split: option.splits)
    qed
  qed
qed

lemma linux_x64_stable:
  "validateInput (Some ''linux-x64'') (Some ''stable'')
     = Some \<lparr>quality = ''stable'', os = ''linux'', arch = ''x64'', type = None\<rparr>"
  by (simp add: resolver_defs enum_defs)

lemma get_request_valid:
  "\<not> (truthy (req_method (get_request params)) \<and> req_method (get_request params) \<noteq> Some ''GET'')"
  "searchParams (get_request params) = Some params"
  by (simp_all add: get_request_def)

theorem cache_control_after_fetch_witness:
  "statusCode (fst (handler (serving 200 (Some release))
      (get_request [(''platform'', ''linux-x64''), (''quality'', ''stable'')]) new_response)) = 200 \<and>
   headers (fst (handler (serving 200 (Some release))
      (get_request [(''platform'', ''linux-x64''), (''quality'', ''stable'')]) new_response))
     ''Cache-Control'' = Some ''s-maxage=14400''"
proof -
  have v: "validateInput (params_get [(''platform'', ''linux-x64''), (''quality'', ''stable'')] ''platform'')
      (params_get [(''platform'', ''linux-x64''), (''quality'', ''stable'')] ''quality'')
     = Some \<lparr>quality = ''stable'', os = ''linux'', arch = ''x64'', type = None\<rparr>"
    by (simp add: params_get_def linux_x64_stable)
  have s: "statusCode (fst (handler (serving 200 (Some release))
      (get_request [(''platform'', ''linux-x64''), (''quality'', ''stable'')]) new_response)) = 200"
    by (simp add: handler_valid [OF get_request_valid v] getLatestJSON_def serving_def
        response_ok_def release_def params_get_def response_defs)
  with cache_control_after_fetch [of "serving 200 (Some release)"
      "get_request [(''platform'', ''linux-x64''), (''quality'', ''stable'')]" new_response]
  show ?thesis
    by simp
qed

text \<open>C2 as stated fails on a request for an unknown platform: the response is 404
  and has no \<^verbatim>\<open>Cache-Control\<close> header.\<close>

theorem not_found_uncached_counterexample:
  "statusCode (fst (handler offline
      (get_request [(''platform'', ''beos-x64''), (''quality'', ''stable'')]) new_response)) = 404 \<and>
   headers (fst (handler offline
      (get_request [(''platform'', ''beos-x64''), (''quality'', ''stable'')]) new_response))
     ''Cache-Control'' = None"
  by (simp add: handler_def get_request_def new_response_def params_get_def resolver_defs enum_defs)

text \<open>\<^verbatim>\<open>commit === latest.version\<close> holds when both are the same string, and when the
  parameter is missing and the field is \<^verbatim>\<open>null\<close>.\<close>

lemma strict_eq_iff:
  "strict_eq c v \<longleftrightarrow>
     (\<exists>s. c = Some s \<and> v = Some (JString s)) \<or> (c = None \<and> v = Some JNull)"
  by (cases "(c, v)" rule: strict_eq.cases) auto

text \<open>
  C8. Take a request that passes the method test and whose platform and quality
  resolve, and let the fetch yield a record. If the record's \<^verbatim>\<open>version\<close> equals the
  \<^verbatim>\<open>commit\<close> parameter (in particular when both are the same string), the response is
  204 with an empty body, whatever else the record holds. Otherwise the response is 200
  with \<^verbatim>\<open>Content-Type: application/json; charset=utf-8\<close> and the serialisation of the
  record, unchanged, as its body.
\<close>

theorem update_decision:
  assumes "\<not> (truthy (req_method req) \<and> req_method req \<noteq> Some ''GET'')"
    and "searchParams req = Some params"
    and "validateInput (params_get params ''platform'') (params_get params ''quality'') = Some input"
    and "getLatestJSON fetch input = Some data"
  shows "(strict_eq (params_get params ''commit'') (get_prop data ''version'') \<longrightarrow>
            statusCode (fst (handler fetch req res)) = 204 \<and>
            ended (fst (handler fetch req res)) = Some Empty) \<and>
         (\<forall>c. params_get params ''commit'' = Some c \<and> get_prop data ''version'' = Some (JString c) \<longrightarrow>
            statusCode (fst (handler fetch req res)) = 204 \<and>
            ended (fst (handler fetch req res)) = Some Empty) \<and>
         (\<not> strict_eq (params_get params ''commit'') (get_prop data ''version'') \<longrightarrow>
            statusCode (fst (handler fetch req res)) = 200 \<and>
            headers (fst (handler fetch req res)) ''Content-Type''
              = Some ''application/json; charset=utf-8'' \<and>
            ended (fst (handler fetch req res)) = Some (Stringified data))"
proof -
  have h: "fst (handler fetch req res) =
      (if strict_eq (params_get params ''commit'') (get_prop data ''version'')
       then sendNoContent (setHeader res ''Cache-Control'' ''s-maxage=14400'')
       else sendJson (setHeader res ''Cache-Control'' ''s-maxage=14400'') 200 data)"
    by (simp add: handler_valid [OF assms(1-3)] assms(4))
  have a: "strict_eq (params_get params ''commit'') (get_prop data ''version'') \<longrightarrow>
            statusCode (fst (handler fetch req res)) = 204 \<and>
            ended (fst (handler fetch req res)) = Some Empty"
    by (simp add: h response_defs)
  have b: "\<not> strict_eq (params_get params ''commit'') (get_prop data ''version'') \<longrightarrow>
            statusCode (fst (handler fetch req res)) = 200 \<and>
            headers (fst (handler fetch req res)) ''Content-Type''
              = Some ''application/json; charset=utf-8'' \<and>
            ended (fst (handler fetch req res)) = Some (Stringified data)"
    by (simp add: h response_defs)
  from a b show ?thesis
    by (auto simp: strict_eq_iff)
qed

lemma linux_x64_release:
  "getLatestJSON (serving 200 (Some release))
     \<lparr>quality = ''stable'', os = ''linux'', arch = ''x64'', type = None\<rparr> = Some release"
  by (simp add: getLatestJSON_def serving_def response_ok_def release_def)

lemma linux_x64_params:
  "validateInput (params_get ((''platform'', ''linux-x64'') # (''quality'', ''stable'') # ps) ''platform'')
      (params_get ((''platform'', ''linux-x64'') # (''quality'', ''stable'') # ps) ''quality'')
     = Some \<lparr>quality = ''stable'', os = ''linux'', arch = ''x64'', type = None\<rparr>"
  by (simp add: params_get_def linux_x64_stable)

theorem update_decision_witness:
  "statusCode (fst (handler (serving 200 (Some release))
      (get_request [(''platform'', ''linux-x64''), (''quality'', ''stable''), (''commit'', ''51b0b28'')])
      new_response)) = 204 \<and>
   ended (fst (handler (serving 200 (Some release))
      (get_request [(''platform'', ''linux-x64''), (''quality'', ''stable''), (''commit'', ''51b0b28'')])
      new_response)) = Some Empty \<and>
   statusCode (fst (handler (serving 200 (Some release))
      (get_request [(''platform'', ''linux-x64''), (''quality'', ''stable''), (''commit'', ''0000000'')])
      new_response)) = 200 \<and>
   ended (fst (handler (serving 200 (Some release))
      (get_request [(''platform'', ''linux-x64''), (''quality'', ''stable''), (''commit'', ''0000000'')])
      new_response)) = Some (Stringified release)"
proof -
  have e: "strict_eq (params_get [(''platform'', ''linux-x64''), (''quality'', ''stable''), (''commit'', ''51b0b28'')] ''commit'')
      (get_prop release ''version'')"
    by (simp add: params_get_def release_def)
  have n: "\<not> strict_eq (params_get [(''platform'', ''linux-x64''), (''quality'', ''stable''), (''commit'', ''0000000'')] ''commit'')
      (get_prop release ''version'')"
    by (simp add: params_get_def release_def)
  from update_decision [OF get_request_valid linux_x64_params linux_x64_release, of "[(''commit'', ''51b0b28'')]" new_response] e
    update_decision [OF get_request_valid linux_x64_params linux_x64_release, of "[(''commit'', ''0000000'')]" new_response] n
  show ?thesis
    by blast
qed

text \<open>
  C10. The \<^verbatim>\<open>commit\<close> parameter takes no part in validation. When it is missing and
  the fetch yields a record whose \<^verbatim>\<open>version\<close> is a string, \<^verbatim>\<open>null === latest.version\<close>
  is false and the response is 200 with the record as its body, never 204.
\<close>

theorem absent_commit_update:
  assumes "\<not> (truthy (req_method req) \<and> req_method req \<noteq> Some ''GET'')"
    and "searchParams req = Some params"
    and "params_get params ''commit'' = None"
    and "validateInput (params_get params ''platform'') (params_get params ''quality'') = Some input"
    and "getLatestJSON fetch input = Some data"
    and "get_prop data ''version'' = Some (JString v)"
  shows "statusCode (fst (handler fetch req res)) = 200 \<and>
         ended (fst (handler fetch req res)) = Some (Stringified data)"
  by (simp add: handler_valid [OF assms(1,2,4)] assms(3,5,6) response_defs)

theorem absent_commit_update_witness:
  "params_get [(''platform'', ''linux-x64''), (''quality'', ''stable'')] ''commit'' = None \<and>
   get_prop release ''version'' = Some (JString ''51b0b28'') \<and>
   statusCode (fst (handler (serving 200 (Some release))
      (get_request [(''platform'', ''linux-x64''), (''quality'', ''stable'')]) new_response)) = 200 \<and>
   ended (fst (handler (serving 200 (Some release))
      (get_request [(''platform'', ''linux-x64''), (''quality'', ''stable'')]) new_response))
     = Some (Stringified release)"
proof -
  have c: "params_get [(''platform'', ''linux-x64''), (''quality'', ''stable'')] ''commit'' = None"
    by (simp add: params_get_def)
  have v: "get_prop release ''version'' = Some (JString ''51b0b28'')"
    by (simp add: release_def)
  from absent_commit_update [OF get_request_valid c linux_x64_params linux_x64_release v, of new_response] c v
  show ?thesis
    by simp
qed

text \<open>The unchecked token reaches the store: the request for \<^verbatim>\<open>linux-x64-bogus\<close> is
  not answered 404; the handler fetches a URL with \<^verbatim>\<open>bogus\<close> as a path segment and
  answers 204 when the store has nothing there.\<close>

lemma unchecked_type_fetched:
  "handler offline (get_request [(''platform'', ''linux-x64-bogus''), (''quality'', ''stable'')])
     new_response =
   (new_response\<lparr>statusCode := 204,
       headers := (headers new_response)(''Cache-Control'' \<mapsto> ''s-maxage=14400''),
       ended := Some Empty\<rparr>,
    [''https://raw.githubusercontent.com/aphrcwaro/datasuite_public/main/stable/linux/x64/bogus/latest.json''])"
  by (simp add: handler_def get_request_def params_get_def resolver_defs enum_defs
      getLatestJSON_def offline_def buildVersionUrl_def VERSION_BASE_URL_def response_defs)

text \<open>What \<^verbatim>\<open>getLatestJSON\<close> turns into \<^verbatim>\<open>null\<close>: a fetch that throws, a status outside
  200--299, a body that is not JSON, and a JSON body that is \<^verbatim>\<open>null\<close>, a boolean, a
  number or a string. The handler then answers 204 with an empty body.\<close>

lemma getLatestJSON_null:
  assumes "fetch (buildVersionUrl input) = NetworkFault \<or>
     (\<exists>status b. fetch (buildVersionUrl input) = HttpResponse status b \<and>
        (\<not> response_ok status \<or> b = None \<or>
         (\<exists>v. b = Some v \<and> (\<not> json_truthy v \<or> typeof v \<noteq> ''object''))))"
  shows "getLatestJSON fetch input = None"
  using assms by (auto simp: getLatestJSON_def)

lemma fetch_failure_no_content:
  assumes "\<not> (truthy (req_method req) \<and> req_method req \<noteq> Some ''GET'')"
    and "searchParams req = Some params"
    and "validateInput (params_get params ''platform'') (params_get params ''quality'') = Some input"
    and "fetch (buildVersionUrl input) = NetworkFault \<or>
     (\<exists>status b. fetch (buildVersionUrl input) = HttpResponse status b \<and>
        (\<not> response_ok status \<or> b = None \<or>
         (\<exists>v. b = Some v \<and> (\<not> json_truthy v \<or> typeof v \<noteq> ''object''))))"
  shows "statusCode (fst (handler fetch req res)) = 204 \<and>
         ended (fst (handler fetch req res)) = Some Empty"
proof -
  have "getLatestJSON fetch input = None"
    using assms(4) by (rule getLatestJSON_null [of fetch input])
  then show ?thesis
    by (simp add: handler_valid [OF assms(1-3)] response_defs)
qed

text \<open>
  C6 on a body that parses, but not as a JSON object. The store answers 200 with the
  body \<^verbatim>\<open>[]\<close>. An array is truthy and its \<^verbatim>\<open>typeof\<close> is \<^verbatim>\<open>'object'\<close>, so line 61 lets it
  through as the record; it has no \<^verbatim>\<open>version\<close>, and the handler answers 200 with the
  array as body where the claim says 204 with an empty body.
\<close>

theorem array_body_served:
  "statusCode (fst (handler (serving 200 (Some (JArray [])))
      (get_request [(''platform'', ''linux-x64''), (''quality'', ''stable'')]) new_response)) = 200 \<and>
   ended (fst (handler (serving 200 (Some (JArray [])))
      (get_request [(''platform'', ''linux-x64''), (''quality'', ''stable'')]) new_response))
     = Some (Stringified (JArray []))"
  by (simp add: handler_valid [OF get_request_valid linux_x64_params] getLatestJSON_def
      serving_def response_ok_def params_get_def response_defs)

end
